theory Spec2Isabelle
  imports Main
begin

section \<open>Site configuration (the constants module)\<close>

text \<open>
  The constants module imports its types from a module that is not part of the sources
  read here, so the record shapes are the shapes of the object literals: a page's
  metadata has a TITLE and a DESCRIPTION, the site has these two fields and three more,
  and a social link has NAME, HREF, icon and end. The field \<open>end\<close> is called
  \<open>end_flag\<close> below, since \<open>end\<close> is a keyword of the theory language.
\<close>

record Metadata =
  TITLE :: string
  DESCRIPTION :: string

record Site = Metadata +
  EMAIL :: string
  NUM_POSTS_ON_HOMEPAGE :: int
  NUM_PROJECTS_ON_HOMEPAGE :: int

text \<open>The icon definitions imported from the icon packages, by their import names.\<close>

datatype icon_ref = faGithub | faLinkedin | faMagnifyingGlass

record Social =
  NAME :: string
  HREF :: string
  icon :: icon_ref
  end_flag :: bool

definition baseUrl :: string where
  "baseUrl = ''https://simeonat.github.io''"

definition SITE :: Site where
  "SITE = \<lparr>TITLE = ''Simeon Tran'',
           DESCRIPTION = ''Computer Science Graduate Student'',
           EMAIL = '''',
           NUM_POSTS_ON_HOMEPAGE = 5,
           NUM_PROJECTS_ON_HOMEPAGE = 0\<rparr>"

definition BLOG :: Metadata where
  "BLOG = \<lparr>TITLE = ''Blog'',
           DESCRIPTION = ''Blog posts on research projects that I am currently working on.''\<rparr>"

definition PROJECTS :: Metadata where
  "PROJECTS = \<lparr>TITLE = ''Projects'',
               DESCRIPTION = ''Projects that I am proud of.''\<rparr>"

definition SOCIALS :: "Social list" where
  "SOCIALS =
    [\<lparr>NAME = ''GitHub'',
      HREF = ''https://github.com/simeonat'',
      icon = faGithub,
      end_flag = False\<rparr>,
     \<lparr>NAME = ''LinkedIn'',
      HREF = ''https://www.linkedin.com/in/simeon-tran/'',
      icon = faLinkedin,
      end_flag = True\<rparr>]"

subsection \<open>The module as a sequence of const declarations\<close>

text \<open>
  Every top-level statement of the constants module is an exported \<open>const\<close>
  declaration whose initialiser is a literal. A value bound in the module's namespace is
  one of the four shapes that occur.
\<close>

datatype binding =
    StrV string
  | SiteV Site
  | MetadataV Metadata
  | SocialsV "Social list"

type_synonym env = "string \<rightharpoonup> binding"

datatype error =
    Redeclared string
  | NoExport string
  | NoProperty string

text \<open>
  A \<open>const\<close> declaration binds a fresh name. A name that the same scope has already
  declared cannot be declared again ("Identifier has already been declared"); the
  declaration is rejected and nothing is overwritten. The type annotation of a
  declaration is erased: the initialiser is bound as it is.
\<close>

definition declare_const :: "string \<Rightarrow> binding \<Rightarrow> env \<Rightarrow> error + env" where
  "declare_const n v e =
     (case e n of
        None \<Rightarrow> Inr (e(n \<mapsto> v))
      | Some old \<Rightarrow> Inl (Redeclared n))"

fun eval_declarations :: "(string \<times> binding) list \<Rightarrow> env \<Rightarrow> error + env" where
  "eval_declarations [] e = Inr e"
| "eval_declarations ((n, v) # ds) e =
     (case declare_const n v e of
        Inl err \<Rightarrow> Inl err
      | Inr e' \<Rightarrow> eval_declarations ds e')"

text \<open>
  The declarations of the constants module, in source order. HOME is declared twice;
  both declarations are listed, each with its own initialiser.
\<close>

definition consts_declarations :: "(string \<times> binding) list" where
  "consts_declarations =
    [(''baseUrl'', StrV baseUrl),
     (''SITE'', SiteV SITE),
     (''HOME'', MetadataV \<lparr>TITLE = ''Home'',
                           DESCRIPTION = ''My personal website and blog.''\<rparr>),
     (''HOME'', MetadataV \<lparr>TITLE = ''Home'',
                           DESCRIPTION = ''Astro Micro is an accessible theme for Astro.''\<rparr>),
     (''BLOG'', MetadataV BLOG),
     (''PROJECTS'', MetadataV PROJECTS),
     (''SOCIALS'', SocialsV SOCIALS)]"

definition consts_module :: "env \<Rightarrow> error + env" where
  "consts_module e = eval_declarations consts_declarations e"

text \<open>
  What \<open>const\<close> protects is the binding of the name, not the value bound. The
  initialisers of the module are plain object and array literals: none is passed to
  \<open>Object.freeze\<close>, none is marked \<open>as const\<close>, and the annotations name no
  readonly type, so the objects are ordinary writable objects. The assignment
  \<open>X.TITLE = v\<close>, where a module has the name \<open>X\<close> in scope, therefore writes the
  field of the object that the name is bound to. It is no operation of the program: no
  statement of the sources is such an assignment.
\<close>

definition assign_TITLE :: "string \<Rightarrow> string \<Rightarrow> env \<Rightarrow> error + env" where
  "assign_TITLE n v e =
     (case e n of
        Some (SiteV s) \<Rightarrow> Inr (e(n \<mapsto> SiteV (s\<lparr>TITLE := v\<rparr>)))
      | Some (MetadataV m) \<Rightarrow> Inr (e(n \<mapsto> MetadataV (m\<lparr>TITLE := v\<rparr>)))
      | _ \<Rightarrow> Inl (NoProperty n))"

text \<open>The value a namespace holds for a name, when evaluation produced a namespace.\<close>

definition exported :: "string \<Rightarrow> error + env \<Rightarrow> error + binding option" where
  "exported n r = (case r of Inl err \<Rightarrow> Inl err | Inr e \<Rightarrow> Inr (e n))"

section \<open>Icon subsystem (the fontAwesomeResize module)\<close>

text \<open>
  The state of the rendering process: the namespace of the constants module, the icon
  library's \<open>config.autoAddCss\<close> flag, whether the fontAwesomeResize module has been
  evaluated already (a module is evaluated once, at its first import), a log of the
  icon subsystem's events, oldest first, and the number of transition scopes that the
  page being rendered has created so far.
\<close>

datatype event =
    Styles_imported
  | AutoAddCss_set bool
  | Icon_rendered icon_ref

record process =
  consts_env :: env
  autoAddCss :: bool
  fontAwesomeResize_evaluated :: bool
  events :: "event list"
  transition_number :: nat

text \<open>
  A process that has evaluated nothing yet. The flag's initial value belongs to the icon
  library, so it is a parameter.
\<close>

definition fresh :: "env \<Rightarrow> bool \<Rightarrow> process" where
  "fresh e b =
     \<lparr>consts_env = e, autoAddCss = b, fontAwesomeResize_evaluated = False, events = [],
      transition_number = 0\<rparr>"

text \<open>
  Every page is rendered into a result of its own, and the transition scopes are
  counted per result: a new page starts the count again. Everything else of the process
  stays as it is.
\<close>

definition new_page :: "process \<Rightarrow> process" where
  "new_page p = p\<lparr>transition_number := 0\<rparr>"

text \<open>The module body: import the stylesheet, then \<open>config.autoAddCss = false\<close>.\<close>

definition fontAwesomeResize :: "process \<Rightarrow> process" where
  "fontAwesomeResize p =
     p\<lparr>autoAddCss := False,
       events := events p @ [Styles_imported, AutoAddCss_set False]\<rparr>"

definition import_fontAwesomeResize :: "process \<Rightarrow> process" where
  "import_fontAwesomeResize p =
     (if fontAwesomeResize_evaluated p then p
      else fontAwesomeResize (p\<lparr>fontAwesomeResize_evaluated := True\<rparr>))"

section \<open>Markup\<close>

text \<open>
  A template is a tree: HTML elements, components (imported, capitalised tags), text and
  comments. An attribute or prop is a string, a boolean expression, an icon expression,
  bare (no value), or a generated transition scope. A scope is rendered as
  \<open>astro-h-n\<close>, where \<open>h\<close> is a hash that the compiler fixes for the component and
  \<open>n\<close> is the number of the scope on its page; only \<open>n\<close> is kept. Text is kept trimmed, a line break inside it is one space, and
  whitespace between tags is left out.
\<close>

datatype attr_value = Str string | Flag bool | Icon icon_ref | Bare | Scope nat

datatype markup =
    Element string "(string \<times> attr_value) list" "markup list"
  | Component string "(string \<times> attr_value) list" "markup list"
  | Text string
  | Comment string

fun texts :: "markup \<Rightarrow> string list" where
  "texts (Text s) = [s]"
| "texts (Comment s) = []"
| "texts (Element t as cs) = concat (map texts cs)"
| "texts (Component c as cs) = concat (map texts cs)"

text \<open>
  The links of a tree in document order, each with its target and the text inside. A
  link is a Link component with a string href.
\<close>

fun links :: "markup \<Rightarrow> (string \<times> string list) list" where
  "links (Text s) = []"
| "links (Comment s) = []"
| "links (Element t as cs) = concat (map links cs)"
| "links (Component c as cs) =
     (if c = ''Link''
      then (case map_of as ''href'' of
              Some (Str h) \<Rightarrow> [(h, concat (map texts cs))]
            | _ \<Rightarrow> [])
      else [])
     @ concat (map links cs)"

text \<open>The elements that carry an aria-label, in document order: tag and label.\<close>

fun aria_labels :: "markup \<Rightarrow> (string \<times> string) list" where
  "aria_labels (Text s) = []"
| "aria_labels (Comment s) = []"
| "aria_labels (Element t as cs) =
     (case map_of as ''aria-label'' of
        Some (Str l) \<Rightarrow> [(t, l)]
      | _ \<Rightarrow> [])
     @ concat (map aria_labels cs)"
| "aria_labels (Component c as cs) = concat (map aria_labels cs)"

text \<open>The icons that rendering a tree renders, in document order.\<close>

fun icons :: "markup \<Rightarrow> icon_ref list" where
  "icons (Text s) = []"
| "icons (Comment s) = []"
| "icons (Element t as cs) = concat (map icons cs)"
| "icons (Component c as cs) =
     (if c = ''FontAwesomeIcon''
      then (case map_of as ''icon'' of
              Some (Icon i) \<Rightarrow> [i]
            | _ \<Rightarrow> [])
      else [])
     @ concat (map icons cs)"

section \<open>The Header component\<close>

definition button_class :: string where
  "button_class = ''flex items-center rounded border border-black/15 bg-neutral-100 px-2 py-1 text-lg transition-colors duration-300 ease-in-out hover:bg-black/5 hover:text-black focus-visible:bg-black/5 focus-visible:text-black dark:border-white/20 dark:bg-neutral-900 dark:hover:bg-white/5 dark:hover:text-white dark:focus-visible:bg-white/5 dark:focus-visible:text-white mr-3 ml-3''"

text \<open>The template of the Header; the only expression in it that reads data is the title.\<close>

definition Header_template :: "Site \<Rightarrow> markup" where
  \<open>Header_template site =
    Element ''header'' [(''transition:persist'', Bare)]
     [Component ''Container'' []
       [Element ''div'' [(''class'', Str ''flex flex-wrap justify-between gap-y-2'')]
         [Component ''Link'' [(''href'', Str ''/''), (''underline'', Flag False)]
           [Element ''div'' [(''class'', Str ''font-semibold text-xl'')]
             [Text (TITLE site)]],
          Element ''nav'' [(''class'', Str ''flex items-center gap-1 text-sm'')]
           [Comment ''All you need to display of PDF is to put the PDF in the "/public" directory: https://answers.netlify.com/t/cant-load-pdf-on-static-astro-site/111152/2'',
            Component ''Link'' [(''href'', Str ''/files/Simeon-Tran-CV.pdf'')] [Text ''CV''],
            Element ''span'' [] [Text ''/''],
            Component ''Link'' [(''href'', Str ''/blog'')] [Text ''Blog''],
            Element ''span'' [] [Text ''/''],
            Element ''button''
              [(''id'', Str ''magnifying-glass''),
               (''aria-label'', Str ''Search''),
               (''class'', Str button_class)]
              [Element ''div'' [(''class'', Str ''mr-2'')]
                [Component ''FontAwesomeIcon'' [(''icon'', Icon faMagnifyingGlass)] []],
               Text ''Search'']]]]]\<close>

text \<open>
  The named import of SITE from the constants module: it resolves when the namespace
  holds a Site under that name.
\<close>

definition import_SITE :: "env \<Rightarrow> error + Site" where
  "import_SITE e =
     (case e ''SITE'' of
        Some (SiteV s) \<Rightarrow> Inr s
      | _ \<Rightarrow> Inl (NoExport ''SITE''))"

text \<open>
  The directive \<open>transition:persist\<close>, written without a value as on the header
  element, is not rendered as it stands: the framework creates a transition scope for
  it, numbered by a count that it keeps for the page being rendered (the first scope of
  a page has number 1), and renders the attribute \<open>data-astro-transition-persist\<close>
  with that scope as its value. The template's only directive is on its root element.
\<close>

definition createTransitionScope :: "process \<Rightarrow> attr_value \<times> process" where
  "createTransitionScope p =
     (Scope (Suc (transition_number p)),
      p\<lparr>transition_number := Suc (transition_number p)\<rparr>)"

fun render_directive :: "attr_value \<Rightarrow> string \<times> attr_value \<Rightarrow> string \<times> attr_value" where
  "render_directive scope (k, v) =
     (if k = ''transition:persist'' then (''data-astro-transition-persist'', scope)
      else (k, v))"

fun render_transition :: "attr_value \<Rightarrow> markup \<Rightarrow> markup" where
  "render_transition scope (Element t as cs) = Element t (map (render_directive scope) as) cs"
| "render_transition scope (Component c as cs) = Component c as cs"
| "render_transition scope (Text s) = Text s"
| "render_transition scope (Comment s) = Comment s"

text \<open>
  Rendering the Header: the frontmatter's imports are resolved and evaluated first (the
  import of fontAwesomeResize is the one with an effect), then the template is rendered
  with its transition scope, which renders its icons.
\<close>

definition Header :: "process \<Rightarrow> error + markup \<times> process" where
  "Header p =
     (case import_SITE (consts_env p) of
        Inl err \<Rightarrow> Inl err
      | Inr site \<Rightarrow>
          (let p' = import_fontAwesomeResize p;
               (scope, p'') = createTransitionScope p';
               m = render_transition scope (Header_template site)
           in Inr (m, p''\<lparr>events := events p'' @ map Icon_rendered (icons m)\<rparr>)))"

definition markup_of :: "error + markup \<times> process \<Rightarrow> error + markup" where
  "markup_of r = (case r of Inl err \<Rightarrow> Inl err | Inr (m, p) \<Rightarrow> Inr m)"

section \<open>The ProfilePicture component\<close>

definition ProfilePicture :: "process \<Rightarrow> markup \<times> process" where
  "ProfilePicture p =
     (Element ''div'' [(''className'', Str ''flex flex-wrap gap-2'')]
        [Component ''Avatar''
           [(''img'', Str ''/profile-pixel-art-upscaled.png''),
            (''rounded'', Bare), (''size'', Str ''xl''), (''bordered'', Bare)] []],
      p)"

section \<open>Executions\<close>

text \<open>
  The operations of the program: a const declaration of the constants module, the
  import of the icon-init module, and the rendering of a component. A step that fails
  ends the execution.
\<close>

datatype step =
    Declare string binding
  | Import_fontAwesomeResize
  | Render_Header
  | Render_ProfilePicture

fun exec :: "step \<Rightarrow> process \<Rightarrow> error + process" where
  "exec (Declare n v) p =
     (case declare_const n v (consts_env p) of
        Inl err \<Rightarrow> Inl err
      | Inr e \<Rightarrow> Inr (p\<lparr>consts_env := e\<rparr>))"
| "exec Import_fontAwesomeResize p = Inr (import_fontAwesomeResize p)"
| "exec Render_Header p =
     (case Header p of
        Inl err \<Rightarrow> Inl err
      | Inr (m, p') \<Rightarrow> Inr p')"
| "exec Render_ProfilePicture p = Inr (snd (ProfilePicture p))"

fun run :: "step list \<Rightarrow> process \<Rightarrow> error + process" where
  "run [] p = Inr p"
| "run (s # ss) p =
     (case exec s p of
        Inl err \<Rightarrow> Inl err
      | Inr p' \<Rightarrow> run ss p')"

text \<open>
  The ordering property of an event log: scanning from the oldest event, the flag is set
  to false before any icon is rendered.
\<close>

fun init_precedes_render :: "event list \<Rightarrow> bool" where
  "init_precedes_render [] = True"
| "init_precedes_render (Styles_imported # es) = init_precedes_render es"
| "init_precedes_render (AutoAddCss_set b # es) = (if b then init_precedes_render es else True)"
| "init_precedes_render (Icon_rendered i # es) = False"

text \<open>
  Modelled from the spec: the component that renders the social links is not among the
  sources (the Header renders none). The spec says of the social links that they are
  "stored as an ordered sequence (order is display order, significant)", each with a
  display name and a target, and "consumed by navigation-rendering components". The
  model renders one link per entry, in the order of the sequence, with the entry's
  target and its display name; the icon and the grouping flag, which do not bear on the
  order, are left out.
\<close>

definition SocialLinks :: "Social list \<Rightarrow> markup" where
  "SocialLinks socials =
     Element ''nav'' []
       (map (\<lambda>s. Component ''Link'' [(''href'', Str (HREF s))] [Text (NAME s)]) socials)"

text \<open>
  The invariant behind the ordering property: the log is ordered, and either the
  icon-init module has been evaluated, its assignment is in the log and the flag is
  off, or no icon has been rendered yet.
\<close>

definition ordered :: "process \<Rightarrow> bool" where
  "ordered p =
     (init_precedes_render (events p) \<and>
      (if fontAwesomeResize_evaluated p
       then AutoAddCss_set False \<in> set (events p) \<and> \<not> autoAddCss p
       else \<forall>i. Icon_rendered i \<notin> set (events p)))"

text \<open>
  Two processes used as concrete inputs: one whose namespace holds the configured SITE
  and nothing else, and the state in which rendering the Header once leaves it.
\<close>

definition site_only :: process where
  "site_only = fresh (Map.empty(''SITE'' \<mapsto> SiteV SITE)) True"

definition site_only_rendered :: process where
  "site_only_rendered =
     \<lparr>consts_env = Map.empty(''SITE'' \<mapsto> SiteV SITE),
      autoAddCss = False,
      fontAwesomeResize_evaluated = True,
      events = [Styles_imported, AutoAddCss_set False, Icon_rendered faMagnifyingGlass],
      transition_number = 1\<rparr>"

section \<open>Properties of the configuration\<close>

text \<open>
  C1: the constants module declares HOME twice, first with the description "My personal
  website and blog." and then with "Astro Micro is an accessible theme for Astro.". The
  module is expected to leave HOME with one value, the second; evaluated as it is
  written, it does not: the second declaration of HOME is a redeclaration, the module is
  rejected and HOME has no value at all.
\<close>

theorem HOME_declared_twice:
  "map snd (filter (\<lambda>d. fst d = ''HOME'') consts_declarations) =
     [MetadataV \<lparr>TITLE = ''Home'', DESCRIPTION = ''My personal website and blog.''\<rparr>,
      MetadataV \<lparr>TITLE = ''Home'',
                 DESCRIPTION = ''Astro Micro is an accessible theme for Astro.''\<rparr>]
   \<and> consts_module Map.empty = Inl (Redeclared ''HOME'')"
  by (simp add: consts_module_def consts_declarations_def declare_const_def)

text \<open>
  C8: the configured social-link list has exactly two entries, GitHub with the
  group-terminator flag false and LinkedIn with the flag true, so exactly one entry
  carries the flag.
\<close>

theorem SOCIALS_one_terminator:
  "map (\<lambda>s. (NAME s, end_flag s)) SOCIALS = [(''GitHub'', False), (''LinkedIn'', True)]
   \<and> length (filter end_flag SOCIALS) = 1"
  by (simp add: SOCIALS_def)

text \<open>
  C2, as the claim states it, fails: a const declaration binds its initialiser without
  looking at it, so a social-link list whose entry has no link target (the empty string,
  which is how the module writes a value it does not have, as in the site's EMAIL) is
  constructed like any other.
\<close>

theorem SOCIALS_malformed_counterexample:
  "exported ''SOCIALS''
     (declare_const ''SOCIALS''
        (SocialsV [\<lparr>NAME = ''GitHub'', HREF = '''', icon = faGithub, end_flag = False\<rparr>])
        Map.empty) =
   Inr (Some (SocialsV
     [\<lparr>NAME = ''GitHub'', HREF = '''', icon = faGithub, end_flag = False\<rparr>]))"
  by (simp add: exported_def declare_const_def)

text \<open>
  C2 (amended): constructing the social-link list validates nothing and cannot fail on
  an entry: in a namespace that has not declared SOCIALS yet, the declaration succeeds
  for every list of entries and binds that list unchanged. An entry is a record of
  NAME, HREF, icon and end, so an entry without one of them is not a value of the type;
  the two configured entries carry a non-empty NAME and HREF.
\<close>

theorem SOCIALS_not_validated:
  "e ''SOCIALS'' = None \<Longrightarrow>
     declare_const ''SOCIALS'' (SocialsV xs) e = Inr (e(''SOCIALS'' \<mapsto> SocialsV xs))
     \<and> map (\<lambda>s. (NAME s, HREF s)) SOCIALS =
         [(''GitHub'', ''https://github.com/simeonat''),
          (''LinkedIn'', ''https://www.linkedin.com/in/simeon-tran/'')]"
  by (simp add: declare_const_def SOCIALS_def)

theorem SOCIALS_not_validated_witness:
  "(Map.empty(''SITE'' \<mapsto> SiteV SITE)) ''SOCIALS'' = None
   \<and> declare_const ''SOCIALS'' (SocialsV SOCIALS) (Map.empty(''SITE'' \<mapsto> SiteV SITE)) =
       Inr (Map.empty(''SITE'' \<mapsto> SiteV SITE, ''SOCIALS'' \<mapsto> SocialsV SOCIALS))"
proof -
  have h: "(Map.empty(''SITE'' \<mapsto> SiteV SITE)) ''SOCIALS'' = None" by simp
  show ?thesis
    using h SOCIALS_not_validated
      [where e = "Map.empty(''SITE'' \<mapsto> SiteV SITE)" and xs = SOCIALS]
    by simp
qed

text \<open>
  C3, as the claim states it, fails: the configuration entities are not frozen. SITE is
  an ordinary object, so a write to its TITLE goes through and changes it.
\<close>

theorem SITE_not_frozen_counterexample:
  "exported ''SITE''
     (assign_TITLE ''SITE'' ''Changed'' (Map.empty(''SITE'' \<mapsto> SiteV SITE))) =
   Inr (Some (SiteV (SITE\<lparr>TITLE := ''Changed''\<rparr>)))
   \<and> TITLE (SITE\<lparr>TITLE := ''Changed''\<rparr>) \<noteq> TITLE SITE"
  by (simp add: exported_def assign_TITLE_def SITE_def)

section \<open>Properties of the rendered markup\<close>

lemma links_Header_template:
  "links (render_transition sc (Header_template site)) =
     [(''/'', [TITLE site]), (''/files/Simeon-Tran-CV.pdf'', [''CV'']), (''/blog'', [''Blog''])]"
  by (simp add: Header_template_def)

lemma texts_Header_template:
  "texts (render_transition sc (Header_template site)) =
     [TITLE site, ''CV'', ''/'', ''Blog'', ''/'', ''Search'']"
  by (simp add: Header_template_def)

lemma icons_Header_template:
  "icons (render_transition sc (Header_template site)) = [faMagnifyingGlass]"
  by (simp add: Header_template_def)

lemma aria_labels_Header_template:
  "aria_labels (render_transition sc (Header_template site)) = [(''button'', ''Search'')]"
  by (simp add: Header_template_def)

lemma transition_number_import:
  "transition_number (import_fontAwesomeResize p) = transition_number p"
  by (simp add: import_fontAwesomeResize_def fontAwesomeResize_def)

lemma markup_of_Header:
  "markup_of (Header p) =
     (case import_SITE (consts_env p) of
        Inl err \<Rightarrow> Inl err
      | Inr site \<Rightarrow>
          Inr (render_transition (Scope (Suc (transition_number p))) (Header_template site)))"
  by (simp add: markup_of_def Header_def Let_def createTransitionScope_def
      transition_number_import split: sum.splits)

lemma import_SITE_bound: "e ''SITE'' = Some (SiteV site) \<Longrightarrow> import_SITE e = Inr site"
  by (simp add: import_SITE_def)

lemma import_SITE_SOCIALS: "import_SITE (e(''SOCIALS'' \<mapsto> v)) = import_SITE e"
  by (simp add: import_SITE_def)

lemma Header_site_only:
  "Header site_only =
     Inr (render_transition (Scope 1) (Header_template SITE), site_only_rendered)"
  by (simp add: Header_def Let_def site_only_def site_only_rendered_def fresh_def
      import_SITE_def import_fontAwesomeResize_def fontAwesomeResize_def
      createTransitionScope_def icons_Header_template)

lemma links_SocialLinks: "links (SocialLinks socials) = map (\<lambda>s. (HREF s, [NAME s])) socials"
  by (induction socials) (simp_all add: SocialLinks_def)

text \<open>
  C5: rendering the social links keeps the authored order: for every list the rendered
  links are the entries' targets and names in the order of the list, and for the
  configured list they are GitHub, then LinkedIn.
\<close>

theorem SocialLinks_preserve_order:
  "map fst (links (SocialLinks socials)) = map HREF socials
   \<and> map snd (links (SocialLinks socials)) = map (\<lambda>s. [NAME s]) socials
   \<and> links (SocialLinks SOCIALS) =
       [(''https://github.com/simeonat'', [''GitHub'']),
        (''https://www.linkedin.com/in/simeon-tran/'', [''LinkedIn''])]"
  by (simp add: links_SocialLinks o_def SOCIALS_def)

text \<open>
  C6: whenever rendering the Header produces markup, exactly one element of it carries
  an aria-label: the search button, labelled "Search".
\<close>

theorem Header_search_label:
  "markup_of (Header p) = Inr m \<Longrightarrow> aria_labels m = [(''button'', ''Search'')]"
  by (auto simp: markup_of_Header aria_labels_Header_template split: sum.splits)

theorem Header_search_label_witness:
  "markup_of (Header site_only) = Inr (render_transition (Scope 1) (Header_template SITE))
   \<and> aria_labels (render_transition (Scope 1) (Header_template SITE)) =
       [(''button'', ''Search'')]"
proof -
  have h: "markup_of (Header site_only) =
             Inr (render_transition (Scope 1) (Header_template SITE))"
    by (simp add: Header_site_only markup_of_def)
  show ?thesis using h Header_search_label [OF h] by simp
qed

text \<open>
  C7: when the namespace holds a Site whose TITLE is "Simeon Tran", rendering the Header
  produces markup that contains the text "Simeon Tran" and a link to the site root "/"
  (the link around that text).
\<close>

theorem Header_title_and_root_link:
  "consts_env p ''SITE'' = Some (SiteV site) \<Longrightarrow> TITLE site = ''Simeon Tran'' \<Longrightarrow>
     markup_of (Header p) =
       Inr (render_transition (Scope (Suc (transition_number p))) (Header_template site))
     \<and> ''Simeon Tran'' \<in>
         set (texts (render_transition (Scope (Suc (transition_number p)))
                (Header_template site)))
     \<and> (''/'', [''Simeon Tran'']) \<in>
         set (links (render_transition (Scope (Suc (transition_number p)))
                (Header_template site)))"
  by (simp add: markup_of_Header import_SITE_bound links_Header_template
      texts_Header_template)

theorem Header_title_and_root_link_witness:
  "consts_env site_only ''SITE'' = Some (SiteV SITE)
   \<and> TITLE SITE = ''Simeon Tran''
   \<and> DESCRIPTION SITE = ''Computer Science Graduate Student''
   \<and> markup_of (Header site_only) = Inr (render_transition (Scope 1) (Header_template SITE))
   \<and> ''Simeon Tran'' \<in> set (texts (render_transition (Scope 1) (Header_template SITE)))
   \<and> (''/'', [''Simeon Tran'']) \<in>
       set (links (render_transition (Scope 1) (Header_template SITE)))"
proof -
  have h1: "consts_env site_only ''SITE'' = Some (SiteV SITE)"
    by (simp add: site_only_def fresh_def)
  have h2: "TITLE SITE = ''Simeon Tran''" by (simp add: SITE_def)
  have h3: "DESCRIPTION SITE = ''Computer Science Graduate Student''" by (simp add: SITE_def)
  have n: "transition_number site_only = 0" by (simp add: site_only_def fresh_def)
  show ?thesis using h1 h2 h3 n Header_title_and_root_link [OF h1 h2] by simp
qed

text \<open>
  C9, as the claim states it, fails: rendering the Header twice in a row, with the same
  configuration, gives two different results. The second rendering is the second
  transition scope of the page, and the scope is part of the header element.
\<close>

theorem Header_twice_counterexample:
  "consts_env site_only_rendered = consts_env site_only
   \<and> Header site_only =
       Inr (render_transition (Scope 1) (Header_template SITE), site_only_rendered)
   \<and> markup_of (Header site_only_rendered) \<noteq> markup_of (Header site_only)"
proof -
  have c: "consts_env site_only_rendered = consts_env site_only"
    by (simp add: site_only_def site_only_rendered_def fresh_def)
  have n1: "transition_number site_only = 0" by (simp add: site_only_def fresh_def)
  have n2: "transition_number site_only_rendered = 1" by (simp add: site_only_rendered_def)
  have "markup_of (Header site_only_rendered) \<noteq> markup_of (Header site_only)"
    by (simp add: markup_of_Header c n1 n2 site_only_def fresh_def import_SITE_def
        Header_template_def)
  then show ?thesis using c Header_site_only by simp
qed

text \<open>
  C9 (amended): rendering the Header twice with the same configuration yields the same
  output when both renderings are at the same transition-scope count of their page (for
  example, each is the first scoped element of a page): the output depends on nothing
  else of the process state. The witness renders the Header on a first page and again
  on a new page of the same process.
\<close>

theorem Header_deterministic:
  "consts_env p = consts_env q \<Longrightarrow> transition_number p = transition_number q \<Longrightarrow>
     markup_of (Header p) = markup_of (Header q)"
  by (simp add: markup_of_Header split: sum.splits)

theorem Header_deterministic_witness:
  "consts_env site_only = consts_env (new_page site_only_rendered)
   \<and> transition_number site_only = transition_number (new_page site_only_rendered)
   \<and> Header site_only =
       Inr (render_transition (Scope 1) (Header_template SITE), site_only_rendered)
   \<and> markup_of (Header (new_page site_only_rendered)) =
       Inr (render_transition (Scope 1) (Header_template SITE))"
proof -
  have h: "consts_env site_only = consts_env (new_page site_only_rendered)"
    by (simp add: site_only_def site_only_rendered_def fresh_def new_page_def)
  have n: "transition_number site_only = transition_number (new_page site_only_rendered)"
    by (simp add: site_only_def fresh_def new_page_def)
  have r: "Header site_only =
             Inr (render_transition (Scope 1) (Header_template SITE), site_only_rendered)"
    by (rule Header_site_only)
  show ?thesis using h n r Header_deterministic [OF h n] by (simp add: markup_of_def)
qed

text \<open>
  C10: the Header's markup does not depend on the social-link list: whatever two lists
  the namespace binds to SOCIALS, the result of rendering is the same.
\<close>

theorem Header_independent_of_SOCIALS:
  "markup_of (Header (p\<lparr>consts_env := (consts_env p)(''SOCIALS'' \<mapsto> SocialsV s1)\<rparr>)) =
   markup_of (Header (p\<lparr>consts_env := (consts_env p)(''SOCIALS'' \<mapsto> SocialsV s2)\<rparr>))"
  by (simp add: markup_of_Header import_SITE_SOCIALS split: sum.splits)

section \<open>Properties of executions\<close>

lemma declare_const_keeps:
  "declare_const n v e = Inr e' \<Longrightarrow> e k = Some w \<Longrightarrow> e' k = Some w"
  by (auto simp: declare_const_def split: option.splits)

lemma Header_keeps_env: "Header p = Inr (m, q) \<Longrightarrow> consts_env q = consts_env p"
  by (auto simp: Header_def Let_def import_fontAwesomeResize_def fontAwesomeResize_def
      createTransitionScope_def split: sum.splits)

lemma exec_keeps:
  "exec s p = Inr q \<Longrightarrow> consts_env p k = Some w \<Longrightarrow> consts_env q k = Some w"
  by (cases s)
    (auto simp: ProfilePicture_def import_fontAwesomeResize_def fontAwesomeResize_def
      split: sum.splits dest: declare_const_keeps Header_keeps_env)

text \<open>
  C3 (amended): no operation of the program (a const declaration, the import of the
  icon-init module, the rendering of the Header or of the ProfilePicture) changes a
  configuration entity once it is constructed: along every execution, a name that the
  namespace binds stays bound to the same value, with every field as it was. The
  entities are read, never written; they are not frozen.
\<close>

theorem configuration_read_only:
  "run ss p = Inr q \<Longrightarrow> consts_env p k = Some w \<Longrightarrow> consts_env q k = Some w"
proof (induction ss arbitrary: p)
  case Nil
  then show ?case by simp
next
  case (Cons s ss)
  then show ?case by (auto split: sum.splits dest: exec_keeps)
qed

theorem configuration_read_only_witness:
  "run [Declare ''SOCIALS'' (SocialsV SOCIALS), Render_Header, Import_fontAwesomeResize,
        Render_ProfilePicture] site_only =
     Inr (site_only_rendered
            \<lparr>consts_env := Map.empty(''SITE'' \<mapsto> SiteV SITE, ''SOCIALS'' \<mapsto> SocialsV SOCIALS)\<rparr>)
   \<and> consts_env site_only ''SITE'' = Some (SiteV SITE)
   \<and> consts_env
       (site_only_rendered
          \<lparr>consts_env := Map.empty(''SITE'' \<mapsto> SiteV SITE, ''SOCIALS'' \<mapsto> SocialsV SOCIALS)\<rparr>)
       ''SITE'' = Some (SiteV SITE)"
proof -
  have r: "run [Declare ''SOCIALS'' (SocialsV SOCIALS), Render_Header,
                Import_fontAwesomeResize, Render_ProfilePicture] site_only =
             Inr (site_only_rendered
                    \<lparr>consts_env :=
                       Map.empty(''SITE'' \<mapsto> SiteV SITE, ''SOCIALS'' \<mapsto> SocialsV SOCIALS)\<rparr>)"
    by (simp add: site_only_def site_only_rendered_def fresh_def declare_const_def
        Header_def Let_def import_SITE_def import_fontAwesomeResize_def
        fontAwesomeResize_def createTransitionScope_def icons_Header_template
        ProfilePicture_def)
  have h: "consts_env site_only ''SITE'' = Some (SiteV SITE)"
    by (simp add: site_only_def fresh_def)
  show ?thesis using r h configuration_read_only [OF r h] by simp
qed

lemma init_precedes_render_after_init:
  "init_precedes_render es \<Longrightarrow> AutoAddCss_set False \<in> set es \<Longrightarrow>
     init_precedes_render (es @ xs)"
  by (induction es rule: init_precedes_render.induct) auto

lemma init_precedes_render_before_render:
  "\<forall>i. Icon_rendered i \<notin> set es \<Longrightarrow> init_precedes_render xs \<Longrightarrow>
     init_precedes_render (es @ xs)"
  by (induction es rule: init_precedes_render.induct) auto

lemma ordered_fresh: "ordered (fresh e b)"
  by (simp add: ordered_def fresh_def)

lemma ordered_import: "ordered p \<Longrightarrow> ordered (import_fontAwesomeResize p)"
  by (auto simp: ordered_def import_fontAwesomeResize_def fontAwesomeResize_def
      intro: init_precedes_render_before_render)

lemma import_evaluated: "fontAwesomeResize_evaluated (import_fontAwesomeResize p)"
  by (simp add: import_fontAwesomeResize_def fontAwesomeResize_def)

lemma ordered_Header:
  assumes "ordered p" and "Header p = Inr (m, q)"
  shows "ordered q"
proof -
  let ?p' = "import_fontAwesomeResize p"
  from assms(2) obtain xs n
    where q: "q = ?p'\<lparr>transition_number := n, events := events ?p' @ xs\<rparr>"
    by (auto simp: Header_def Let_def createTransitionScope_def split: sum.splits)
  have o: "ordered ?p'" using assms(1) by (rule ordered_import)
  have ev: "fontAwesomeResize_evaluated ?p'" by (rule import_evaluated)
  from o ev have "init_precedes_render (events ?p')"
    and "AutoAddCss_set False \<in> set (events ?p')" and "\<not> autoAddCss ?p'"
    by (simp_all add: ordered_def)
  then show ?thesis using ev by (simp add: q ordered_def init_precedes_render_after_init)
qed

lemma ordered_exec:
  assumes "ordered p" and "exec s p = Inr q"
  shows "ordered q"
proof (cases s)
  case (Declare n v)
  then show ?thesis using assms by (auto simp: ordered_def split: sum.splits)
next
  case Import_fontAwesomeResize
  then show ?thesis using assms by (auto intro: ordered_import)
next
  case Render_Header
  then show ?thesis using assms by (auto split: sum.splits intro: ordered_Header)
next
  case Render_ProfilePicture
  then show ?thesis using assms by (auto simp: ProfilePicture_def)
qed

lemma ordered_run: "ordered p \<Longrightarrow> run ss p = Inr q \<Longrightarrow> ordered q"
proof (induction ss arbitrary: p)
  case Nil
  then show ?case by simp
next
  case (Cons s ss)
  then show ?case by (auto split: sum.splits dest: ordered_exec)
qed

text \<open>
  C4: the icon-init module leaves the auto-stylesheet flag false, and in every execution
  of a fresh process, whatever the flag was at the start, the event log is ordered: the
  flag is set to false before the first icon is rendered.
\<close>

theorem icon_init_precedes_render:
  "run ss (fresh e b) = Inr q \<Longrightarrow>
     autoAddCss (fontAwesomeResize p) = False \<and> init_precedes_render (events q)"
  using ordered_run [OF ordered_fresh] by (simp add: ordered_def fontAwesomeResize_def)

theorem icon_init_precedes_render_witness:
  "run [Render_ProfilePicture, Render_Header]
       (fresh (Map.empty(''SITE'' \<mapsto> SiteV SITE)) True) = Inr site_only_rendered
   \<and> autoAddCss (fontAwesomeResize (fresh (Map.empty(''SITE'' \<mapsto> SiteV SITE)) True)) = False
   \<and> events site_only_rendered =
       [Styles_imported, AutoAddCss_set False, Icon_rendered faMagnifyingGlass]
   \<and> init_precedes_render (events site_only_rendered)"
proof -
  have r: "run [Render_ProfilePicture, Render_Header]
             (fresh (Map.empty(''SITE'' \<mapsto> SiteV SITE)) True) = Inr site_only_rendered"
    using Header_site_only by (simp add: ProfilePicture_def site_only_def)
  have ev: "events site_only_rendered =
              [Styles_imported, AutoAddCss_set False, Icon_rendered faMagnifyingGlass]"
    by (simp add: site_only_rendered_def)
  show ?thesis
    using r ev
      icon_init_precedes_render
        [OF r, of "fresh (Map.empty(''SITE'' \<mapsto> SiteV SITE)) True"]
    by simp
qed

end
